theory Spec2Isabelle
  imports
    Complex_Main
    "HOL-Library.Multiset"
    "HOL-Library.Char_ord"
    "HOL-Library.List_Lexorder"
begin

section \<open>Companies directory: data model\<close>

text \<open>
  One company record, as both \<^verbatim>\<open>getRealCompanies\<close> and the mapping in
  \<^verbatim>\<open>fetchFromSEC\<close> (backend/server.js) build it and as the frontend (App.js) reads
  it. The field \<^verbatim>\<open>id\<close> is called \<open>id_num\<close> here, because \<open>id\<close> is the
  identity function of HOL. JavaScript numbers that hold integers are \<open>int\<close>; strings
  are lists of characters (code units), restricted to the ASCII range where a builtin
  such as \<^verbatim>\<open>toLowerCase\<close> looks at the characters.
\<close>

record company =
  id_num :: int
  name :: string
  location :: string
  industry :: string
  employees :: int
  founded :: int
  ticker :: string

section \<open>Frontend: the view model of App.js\<close>

subsection \<open>View state\<close>

text \<open>
  The \<^verbatim>\<open>useState\<close> cells of the component that drive the visible list
  (App.js lines 8 to 13). \<^verbatim>\<open>sortBy\<close> only ever receives the five column names
  that the table headers pass to \<^verbatim>\<open>handleSort\<close>; \<^verbatim>\<open>sortOrder\<close> is
  \<^verbatim>\<open>'asc'\<close> or \<^verbatim>\<open>'desc'\<close>.
\<close>

datatype sort_field = Name | Location | Industry | Employees | Founded

datatype sort_order = Asc | Desc

record view_state =
  searchTerm :: string
  locationFilter :: string
  industryFilter :: string
  sortBy :: sort_field
  sortOrder :: sort_order
  currentPage :: int

definition itemsPerPage :: nat where
  "itemsPerPage = 6"

subsection \<open>String builtins\<close>

text \<open>
  \<^verbatim>\<open>String.prototype.toLowerCase\<close> on ASCII text: the letters A to Z move to a to z,
  every other character stays.
\<close>

definition lower_char :: "char \<Rightarrow> char" where
  "lower_char c =
     (if (65::nat) \<le> of_char c \<and> of_char c \<le> (90::nat)
      then char_of (of_char c + (32::nat)) else c)"

definition toLowerCase :: "string \<Rightarrow> string" where
  "toLowerCase s = map lower_char s"

text \<open>
  \<^verbatim>\<open>String.prototype.startsWith\<close> and \<^verbatim>\<open>String.prototype.includes\<close>:
  \<open>includes_str s t\<close> is \<^verbatim>\<open>s.includes(t)\<close>, true when \<open>t\<close> occurs in \<open>s\<close> at some
  position; the empty string occurs in every string.
\<close>

fun startsWith :: "string \<Rightarrow> string \<Rightarrow> bool" where
  "startsWith s [] = True"
| "startsWith [] (d # t) = False"
| "startsWith (c # s) (d # t) = (c = d \<and> startsWith s t)"

fun includes_str :: "string \<Rightarrow> string \<Rightarrow> bool" where
  "includes_str [] t = (t = [])"
| "includes_str (c # s) t = (startsWith (c # s) t \<or> includes_str s t)"

subsection \<open>Filter (App.js lines 75 to 81)\<close>

definition matchesSearch :: "view_state \<Rightarrow> company \<Rightarrow> bool" where
  "matchesSearch vs c =
     (includes_str (toLowerCase (name c)) (toLowerCase (searchTerm vs)) \<or>
      includes_str (toLowerCase (location c)) (toLowerCase (searchTerm vs)))"

text \<open>\<^verbatim>\<open>!locationFilter\<close> on a string is true exactly for the empty string.\<close>

definition matchesLocation :: "view_state \<Rightarrow> company \<Rightarrow> bool" where
  "matchesLocation vs c = (locationFilter vs = [] \<or> location c = locationFilter vs)"

definition matchesIndustry :: "view_state \<Rightarrow> company \<Rightarrow> bool" where
  "matchesIndustry vs c = (industryFilter vs = [] \<or> industry c = industryFilter vs)"

definition filtered :: "company list \<Rightarrow> view_state \<Rightarrow> company list" where
  "filtered companies vs =
     filter (\<lambda>c. matchesSearch vs c \<and> matchesLocation vs c \<and> matchesIndustry vs c) companies"

text \<open>
  The filter rule in the words of the specification: \<open>is_substring t s\<close> says that \<open>t\<close>
  occurs in \<open>s\<close> as a contiguous run of characters.
\<close>

definition is_substring :: "string \<Rightarrow> string \<Rightarrow> bool" where
  "is_substring t s = (\<exists>before after. s = before @ t @ after)"

definition spec_keep :: "view_state \<Rightarrow> company \<Rightarrow> bool" where
  "spec_keep vs c =
     ((searchTerm vs = [] \<or>
       is_substring (toLowerCase (searchTerm vs)) (toLowerCase (name c)) \<or>
       is_substring (toLowerCase (searchTerm vs)) (toLowerCase (location c))) \<and>
      (locationFilter vs = [] \<or> locationFilter vs = location c) \<and>
      (industryFilter vs = [] \<or> industryFilter vs = industry c))"


subsection \<open>Sort (App.js lines 84 to 98)\<close>

text \<open>
  The value \<^verbatim>\<open>a[sortBy]\<close>: a string for the columns name, location and industry,
  a number for employees and founded.
\<close>

datatype js_value = Str string | Num int

fun field :: "sort_field \<Rightarrow> company \<Rightarrow> js_value" where
  "field Name c = Str (name c)"
| "field Location c = Str (location c)"
| "field Industry c = Str (industry c)"
| "field Employees c = Num (employees c)"
| "field Founded c = Num (founded c)"

text \<open>
  The relational operators \<^verbatim>\<open>>\<close> and \<^verbatim>\<open><\<close> of JavaScript: two strings
  compare code unit by code unit (a proper prefix comes first), two numbers by value.
  Both operands of the comparator come from the same column, so an operand pair of
  mixed kinds does not occur; the last equations only make the functions total.
\<close>

fun js_gt :: "js_value \<Rightarrow> js_value \<Rightarrow> bool" where
  "js_gt (Str a) (Str b) = (b < a)"
| "js_gt (Num a) (Num b) = (b < a)"
| "js_gt _ _ = False"

fun js_lt :: "js_value \<Rightarrow> js_value \<Rightarrow> bool" where
  "js_lt (Str a) (Str b) = (a < b)"
| "js_lt (Num a) (Num b) = (a < b)"
| "js_lt _ _ = False"

fun lower_value :: "js_value \<Rightarrow> js_value" where
  "lower_value (Str s) = Str (toLowerCase s)"
| "lower_value (Num n) = Num n"

text \<open>
  The callback handed to \<^verbatim>\<open>filtered.sort\<close>. When \<^verbatim>\<open>typeof aVal\<close> is
  \<^verbatim>\<open>'string'\<close> both values are lower-cased. The result is 1 or -1, never 0.
\<close>

definition compareFn :: "sort_field \<Rightarrow> sort_order \<Rightarrow> company \<Rightarrow> company \<Rightarrow> int" where
  "compareFn sb so a b =
     (let aVal = field sb a;
          bVal = field sb b;
          (aVal, bVal) = (case aVal of
                            Str _ \<Rightarrow> (lower_value aVal, lower_value bVal)
                          | Num _ \<Rightarrow> (aVal, bVal))
      in if so = Asc then (if js_gt aVal bVal then 1 else - 1)
         else (if js_lt aVal bVal then 1 else - 1))"

text \<open>
  \<^verbatim>\<open>Array.prototype.sort\<close> is a builtin of the engine, not code of the repository,
  and this callback never answers 0, so the order of records with equal keys is
  whatever the engine's algorithm makes of it. The model follows the algorithm of V8
  (Node.js, Chrome) for an array of fewer than 64 elements; the backend serves at most
  20 records. There the minimum run length is the length of the
  array: the engine finds the run at the start of the array, reverses it if it is
  descending, and then puts every further element into the sorted front by binary
  insertion. Arrays of 64 or more elements are cut into several runs that are merged;
  the model does not follow the engine there.

  \<open>binary_search\<close> is the inner loop of the binary insertion: it finds the slot of
  \<open>pivot\<close> between \<open>left\<close> and \<open>right\<close>, moving \<open>right\<close> down when the
  callback answers less than 0 for the pivot against the middle element and \<open>left\<close>
  up otherwise.
\<close>

function binary_search :: "('a \<Rightarrow> 'a \<Rightarrow> int) \<Rightarrow> 'a \<Rightarrow> 'a list \<Rightarrow> nat \<Rightarrow> nat \<Rightarrow> nat" where
  "binary_search cmp pivot xs left right =
     (if left < right
      then (let mid = left + (right - left) div 2;
                order = cmp pivot (xs ! mid)
            in if order < 0 then binary_search cmp pivot xs left mid
               else binary_search cmp pivot xs (mid + 1) right)
      else left)"
  by pat_completeness auto
termination
  by (relation "measure (\<lambda>(cmp, pivot, xs, left, right). right - left)") auto

text \<open>
  The outer loop of the binary insertion: \<open>run\<close> is the sorted front of the array,
  the second list holds the elements not yet placed. Each pivot is put at the slot that
  the search finds, the elements behind the slot move one place up.
\<close>

fun BinaryInsertionSort :: "('a \<Rightarrow> 'a \<Rightarrow> int) \<Rightarrow> 'a list \<Rightarrow> 'a list \<Rightarrow> 'a list" where
  "BinaryInsertionSort cmp run [] = run"
| "BinaryInsertionSort cmp run (pivot # rest) =
     (let left = binary_search cmp pivot run 0 (length run)
      in BinaryInsertionSort cmp (take left run @ pivot # drop left run) rest)"

text \<open>
  The run at the start of the array. The first two elements decide the kind of the run:
  it is descending when the callback answers less than 0 for the second element against
  the first. The run goes on while each element compared with the one before it keeps
  that kind (less than 0 for a descending run, at least 0 for an ascending one);
  \<open>count_run\<close> counts the elements after the second that belong to it. A descending
  run is reversed. The result is the run and the rest of the array.
\<close>

fun count_run :: "('a \<Rightarrow> 'a \<Rightarrow> int) \<Rightarrow> bool \<Rightarrow> 'a \<Rightarrow> 'a list \<Rightarrow> nat" where
  "count_run cmp isDescending previousElement [] = 0"
| "count_run cmp isDescending previousElement (currentElement # rest) =
     (let order = cmp currentElement previousElement
      in if (if isDescending then order \<ge> 0 else order < 0) then 0
         else Suc (count_run cmp isDescending currentElement rest))"

fun CountAndMakeRun :: "('a \<Rightarrow> 'a \<Rightarrow> int) \<Rightarrow> 'a list \<Rightarrow> 'a list \<times> 'a list" where
  "CountAndMakeRun cmp (elementHigh # elementLow # rest) =
     (let isDescending = (cmp elementLow elementHigh < 0);
          runLength = 2 + count_run cmp isDescending elementLow rest;
          run = take runLength (elementHigh # elementLow # rest)
      in (if isDescending then rev run else run,
          drop runLength (elementHigh # elementLow # rest)))"
| "CountAndMakeRun cmp xs = (xs, [])"

text \<open>An array of fewer than 2 elements is left as it is.\<close>

definition array_sort :: "('a \<Rightarrow> 'a \<Rightarrow> int) \<Rightarrow> 'a list \<Rightarrow> 'a list" where
  "array_sort cmp xs =
     (if length xs < 2 then xs
      else (let (run, rest) = CountAndMakeRun cmp xs
            in BinaryInsertionSort cmp run rest))"

text \<open>
  The equation of \<open>binary_search\<close> unfolds without end as a rewrite rule; it is used
  where it is needed.
\<close>

declare binary_search.simps [simp del]

definition filteredCompanies :: "company list \<Rightarrow> view_state \<Rightarrow> company list" where
  "filteredCompanies companies vs =
     array_sort (compareFn (sortBy vs) (sortOrder vs)) (filtered companies vs)"


definition compare3 :: "js_value \<Rightarrow> js_value \<Rightarrow> int" where
  "compare3 a b = (if js_lt a b then - 1 else if js_gt a b then 1 else 0)"



subsection \<open>Pagination (App.js lines 104 to 108)\<close>

text \<open>
  \<^verbatim>\<open>Math.ceil(filteredCompanies.length / itemsPerPage)\<close>, the quotient taken in the
  real numbers.
\<close>

definition totalPages :: "company list \<Rightarrow> int" where
  "totalPages fc = \<lceil>real (length fc) / real itemsPerPage\<rceil>"

text \<open>
  \<^verbatim>\<open>Array.prototype.slice(start, end)\<close> on integers: a negative index counts from
  the end of the array, both indices are cut to the range from 0 to the length, and the
  result is empty when the end does not lie behind the start.
\<close>

definition slice :: "'a list \<Rightarrow> int \<Rightarrow> int \<Rightarrow> 'a list" where
  "slice xs start end' =
     (let len = int (length xs);
          k = (if start < 0 then max (len + start) 0 else min start len);
          final = (if end' < 0 then max (len + end') 0 else min end' len)
      in take (nat (final - k)) (drop (nat k) xs))"

definition paginatedCompanies :: "company list \<Rightarrow> int \<Rightarrow> company list" where
  "paginatedCompanies fc page =
     slice fc ((page - 1) * int itemsPerPage) (page * int itemsPerPage)"

text \<open>
  The clamp of the specification: the page number cut to the range from 1 to
  \<open>max 1 totalPages\<close>.
\<close>

definition clampPage :: "int \<Rightarrow> int \<Rightarrow> int" where
  "clampPage pages page = max 1 (min (max 1 pages) page)"

subsection \<open>Event handlers\<close>

text \<open>
  The \<^verbatim>\<open>onChange\<close> handlers of the search box and of the two selects
  (App.js lines 228, 244 and 264), \<^verbatim>\<open>handleSort\<close> (line 110),
  \<^verbatim>\<open>resetFilters\<close> (line 119) and the three kinds of pagination buttons
  (lines 438, 449 and 462); the pagination buttons are rendered only when
  \<^verbatim>\<open>totalPages > 1\<close>, and there is one numbered button for each index below
  \<^verbatim>\<open>totalPages\<close>.
\<close>

definition searchTerm_onChange :: "string \<Rightarrow> view_state \<Rightarrow> view_state" where
  "searchTerm_onChange v vs = vs\<lparr>searchTerm := v, currentPage := 1\<rparr>"

definition locationFilter_onChange :: "string \<Rightarrow> view_state \<Rightarrow> view_state" where
  "locationFilter_onChange v vs = vs\<lparr>locationFilter := v, currentPage := 1\<rparr>"

definition industryFilter_onChange :: "string \<Rightarrow> view_state \<Rightarrow> view_state" where
  "industryFilter_onChange v vs = vs\<lparr>industryFilter := v, currentPage := 1\<rparr>"

definition handleSort :: "sort_field \<Rightarrow> view_state \<Rightarrow> view_state" where
  "handleSort fld vs =
     (if sortBy vs = fld
      then vs\<lparr>sortOrder := (if sortOrder vs = Asc then Desc else Asc)\<rparr>
      else vs\<lparr>sortBy := fld, sortOrder := Asc\<rparr>)"

definition resetFilters :: "view_state \<Rightarrow> view_state" where
  "resetFilters vs =
     vs\<lparr>searchTerm := [], locationFilter := [], industryFilter := [],
        sortBy := Name, sortOrder := Asc, currentPage := 1\<rparr>"

definition previous_onClick :: "view_state \<Rightarrow> view_state" where
  "previous_onClick vs = vs\<lparr>currentPage := max 1 (currentPage vs - 1)\<rparr>"

definition page_onClick :: "nat \<Rightarrow> view_state \<Rightarrow> view_state" where
  "page_onClick i vs = vs\<lparr>currentPage := int i + 1\<rparr>"

definition next_onClick :: "int \<Rightarrow> view_state \<Rightarrow> view_state" where
  "next_onClick pages vs = vs\<lparr>currentPage := min pages (currentPage vs + 1)\<rparr>"

subsection \<open>Loading the records (App.js lines 23 to 60)\<close>

text \<open>
  The state of the component as far as the visible page depends on it: the loaded
  records and the view state. \<^verbatim>\<open>fetchCompanies\<close>, which runs on mount and again at
  the end of \<^verbatim>\<open>handleRefresh\<close>, calls \<^verbatim>\<open>setCompanies(result.data)\<close> on a
  successful answer and writes no cell of the view state. \<open>visible_page\<close> is the list
  that the table and the cards render.
\<close>

type_synonym app_state = "company list \<times> view_state"

definition setCompanies :: "company list \<Rightarrow> app_state \<Rightarrow> app_state" where
  "setCompanies data app = (data, snd app)"

definition visible_page :: "app_state \<Rightarrow> company list" where
  "visible_page app =
     paginatedCompanies (filteredCompanies (fst app) (snd app)) (currentPage (snd app))"

section \<open>Backend: the cache service of server.js\<close>

subsection \<open>The curated fallback list\<close>

definition getRealCompanies :: "company list" where
  "getRealCompanies =
     [
      \<lparr>id_num = 1, name = ''Apple Inc.'', location = ''Cupertino, CA'', industry = ''Technology'',
        employees = 164000, founded = 1976, ticker = ''AAPL''\<rparr>,
      \<lparr>id_num = 2, name = ''Microsoft Corporation'', location = ''Redmond, WA'', industry = ''Technology'',
        employees = 221000, founded = 1975, ticker = ''MSFT''\<rparr>,
      \<lparr>id_num = 3, name = ''Amazon.com Inc.'', location = ''Seattle, WA'', industry = ''Retail'',
        employees = 1541000, founded = 1994, ticker = ''AMZN''\<rparr>,
      \<lparr>id_num = 4, name = ''Tesla Inc.'', location = ''Austin, TX'', industry = ''Energy'',
        employees = 127855, founded = 2003, ticker = ''TSLA''\<rparr>,
      \<lparr>id_num = 5, name = ''Meta Platforms Inc.'', location = ''Menlo Park, CA'', industry = ''Technology'',
        employees = 86482, founded = 2004, ticker = ''META''\<rparr>,
      \<lparr>id_num = 6, name = ''Alphabet Inc.'', location = ''Mountain View, CA'', industry = ''Technology'',
        employees = 190234, founded = 1998, ticker = ''GOOGL''\<rparr>,
      \<lparr>id_num = 7, name = ''JPMorgan Chase & Co.'', location = ''New York, NY'', industry = ''Finance'',
        employees = 293723, founded = 1799, ticker = ''JPM''\<rparr>,
      \<lparr>id_num = 8, name = ''Johnson & Johnson'', location = ''New Brunswick, NJ'', industry = ''Healthcare'',
        employees = 152700, founded = 1886, ticker = ''JNJ''\<rparr>,
      \<lparr>id_num = 9, name = ''Visa Inc.'', location = ''San Francisco, CA'', industry = ''Finance'',
        employees = 26500, founded = 1958, ticker = ''V''\<rparr>,
      \<lparr>id_num = 10, name = ''Walmart Inc.'', location = ''Bentonville, AR'', industry = ''Retail'',
        employees = 2100000, founded = 1962, ticker = ''WMT''\<rparr>,
      \<lparr>id_num = 11, name = ''Procter & Gamble'', location = ''Cincinnati, OH'', industry = ''Retail'',
        employees = 107000, founded = 1837, ticker = ''PG''\<rparr>,
      \<lparr>id_num = 12, name = ''UnitedHealth Group'', location = ''Minnetonka, MN'', industry = ''Healthcare'',
        employees = 440000, founded = 1977, ticker = ''UNH''\<rparr>,
      \<lparr>id_num = 13, name = ''NVIDIA Corporation'', location = ''Santa Clara, CA'', industry = ''Technology'',
        employees = 29600, founded = 1993, ticker = ''NVDA''\<rparr>,
      \<lparr>id_num = 14, name = ''Exxon Mobil'', location = ''Irving, TX'', industry = ''Energy'',
        employees = 62000, founded = 1999, ticker = ''XOM''\<rparr>,
      \<lparr>id_num = 15, name = ''Pfizer Inc.'', location = ''New York, NY'', industry = ''Healthcare'',
        employees = 83000, founded = 1849, ticker = ''PFE''\<rparr>,
      \<lparr>id_num = 16, name = ''Coca-Cola Company'', location = ''Atlanta, GA'', industry = ''Retail'',
        employees = 82500, founded = 1892, ticker = ''KO''\<rparr>,
      \<lparr>id_num = 17, name = ''Intel Corporation'', location = ''Santa Clara, CA'', industry = ''Technology'',
        employees = 124800, founded = 1968, ticker = ''INTC''\<rparr>,
      \<lparr>id_num = 18, name = ''Chevron Corporation'', location = ''San Ramon, CA'', industry = ''Energy'',
        employees = 43846, founded = 1879, ticker = ''CVX''\<rparr>,
      \<lparr>id_num = 19, name = ''Mastercard Inc.'', location = ''Purchase, NY'', industry = ''Finance'',
        employees = 33000, founded = 1966, ticker = ''MA''\<rparr>,
      \<lparr>id_num = 20, name = ''Netflix Inc.'', location = ''Los Gatos, CA'', industry = ''Technology'',
        employees = 12800, founded = 1997, ticker = ''NFLX''\<rparr>
     ]"

subsection \<open>What one request receives from outside\<close>

text \<open>
  One value of the registry's JSON object, as the mapping of \<^verbatim>\<open>fetchFromSEC\<close> reads
  it: \<^verbatim>\<open>company.title\<close> and \<^verbatim>\<open>company.ticker\<close>.
\<close>

record sec_entry =
  title :: string
  sec_ticker :: string

text \<open>
  The outcome of the \<^verbatim>\<open>try\<close> block of \<^verbatim>\<open>fetchFromSEC\<close> up to the mapping:
  either something in it throws (the request is rejected by a network error, a status
  outside 2xx or the 5 second timeout, or the payload cannot be read), or
  \<^verbatim>\<open>Object.values(response.data)\<close> yields the registry's entries in order.
\<close>

datatype axios_result = Rejected | Resolved "sec_entry list"

text \<open>
  The environment of one request: the outcome of the registry call if the handler makes
  it, the successive results of \<^verbatim>\<open>Math.random()\<close>, the reading of
  \<^verbatim>\<open>Date.now()\<close> when the handler starts, and the reading of the clock once the
  awaited fetch has completed.
\<close>

record world =
  sec_reply :: axios_result
  random :: "nat \<Rightarrow> real"
  time_at_entry :: int
  time_after_fetch :: int

subsection \<open>Fetching (server.js lines 43 to 83)\<close>

definition industry_labels :: "string list" where
  "industry_labels = [''Technology'', ''Finance'', ''Healthcare'', ''Retail'', ''Energy'']"

text \<open>
  The callback of \<^verbatim>\<open>secData.map\<close>. The entry at \<open>index\<close> draws two random numbers,
  first for the employees, then for the founding year.
\<close>

definition sec_company :: "(nat \<Rightarrow> real) \<Rightarrow> nat \<Rightarrow> sec_entry \<Rightarrow> company" where
  "sec_company rnd index entry =
     \<lparr>id_num = int index + 1,
      name = title entry,
      location = ''United States'',
      industry = industry_labels ! (index mod 5),
      employees = \<lfloor>rnd (2 * index) * 5000\<rfloor> + 100,
      founded = \<lfloor>rnd (2 * index + 1) * (2020 - 1950) + 1950\<rfloor>,
      ticker = sec_ticker entry\<rparr>"

text \<open>\<open>None\<close> is the \<^verbatim>\<open>null\<close> that the \<^verbatim>\<open>catch\<close> block returns.\<close>

definition fetchFromSEC :: "world \<Rightarrow> company list option" where
  "fetchFromSEC w =
     (case sec_reply w of
        Rejected \<Rightarrow> None
      | Resolved vals \<Rightarrow>
          (let secData = take 20 vals
           in Some (map (\<lambda>(index, entry). sec_company (random w) index entry)
                      (enumerate 0 secData))))"

definition fetchCompanies :: "world \<Rightarrow> company list" where
  "fetchCompanies w =
     (case fetchFromSEC w of
        Some secData \<Rightarrow> if length secData > 0 then secData else getRealCompanies
      | None \<Rightarrow> getRealCompanies)"

subsection \<open>Server state and responses\<close>

record server =
  cachedCompanies :: "company list option"
  lastFetchTime :: "int option"

definition CACHE_DURATION :: int where
  "CACHE_DURATION = 3600000"

text \<open>
  The JSON bodies of the routes. \<open>ListBody data count source timestamp\<close> is the success
  body of \<^verbatim>\<open>GET /api/companies\<close> (the timestamp is present only on a fresh fetch and
  is kept as the clock reading it renders), \<open>RefreshBody message data count\<close> that of
  \<^verbatim>\<open>POST /api/companies/refresh\<close>, \<open>CompanyBody data\<close> that of
  \<^verbatim>\<open>GET /api/companies/:id\<close>, and \<open>FailureBody message\<close> is
  \<^verbatim>\<open>{success: false, message}\<close>.
\<close>

datatype body =
    ListBody "company list" int string "int option"
  | RefreshBody string "company list" int
  | CompanyBody company
  | FailureBody string

record response =
  status :: nat
  body :: body

text \<open>The \<^verbatim>\<open>source\<close> field of a body, where the body has one.\<close>

fun source_tag :: "body \<Rightarrow> string option" where
  "source_tag (ListBody d n src ts) = Some src"
| "source_tag (RefreshBody m d n) = None"
| "source_tag (CompanyBody c) = None"
| "source_tag (FailureBody m) = None"

text \<open>
  What a handler does: the response it sends, the server state it leaves, and how many
  times it called the registry.
\<close>

record outcome =
  response :: response
  server_after :: server
  sec_calls :: nat

subsection \<open>GET /api/companies (server.js lines 88 to 125)\<close>

text \<open>
  The guard \<^verbatim>\<open>cachedCompanies && lastFetchTime && (currentTime - lastFetchTime) < CACHE_DURATION\<close>:
  an array is truthy, \<^verbatim>\<open>null\<close> is not, and a number is truthy unless it is 0.
\<close>

definition timestamp_is_fresh :: "int option \<Rightarrow> int \<Rightarrow> bool" where
  "timestamp_is_fresh stamp currentTime =
     (case stamp of
        None \<Rightarrow> False
      | Some t \<Rightarrow> t \<noteq> 0 \<and> currentTime - t < CACHE_DURATION)"

text \<open>Lines 103 to 116: fetch, overwrite both cells, answer with the fetched list.\<close>

definition fetch_fresh :: "world \<Rightarrow> int \<Rightarrow> outcome" where
  "fetch_fresh w currentTime =
     (let companies = fetchCompanies w
      in \<lparr>response = \<lparr>status = 200,
                        body = ListBody companies (int (length companies)) ''api''
                                 (Some (time_after_fetch w))\<rparr>,
          server_after = \<lparr>cachedCompanies = Some companies,
                          lastFetchTime = Some currentTime\<rparr>,
          sec_calls = 1\<rparr>)"

definition get_companies :: "world \<Rightarrow> server \<Rightarrow> outcome" where
  "get_companies w s =
     (let currentTime = time_at_entry w
      in case cachedCompanies s of
           None \<Rightarrow> fetch_fresh w currentTime
         | Some cached \<Rightarrow>
             if timestamp_is_fresh (lastFetchTime s) currentTime
             then \<lparr>response = \<lparr>status = 200,
                                body = ListBody cached (int (length cached)) ''cache'' None\<rparr>,
                   server_after = s,
                   sec_calls = 0\<rparr>
             else fetch_fresh w currentTime)"

subsection \<open>GET /api/companies/:id (server.js lines 128 to 151)\<close>

text \<open>
  \<^verbatim>\<open>parseInt\<close> with no radix, on ASCII text: leading white space is skipped, one
  sign is read, a prefix 0x or 0X selects radix 16, and the longest run of digits of the
  radix is the number; with no digit the result is \<^verbatim>\<open>NaN\<close>, here \<open>None\<close>. The
  model keeps the exact integer (JavaScript rounds a value beyond 2^53 to a double).
\<close>

definition isWhiteSpace :: "char \<Rightarrow> bool" where
  "isWhiteSpace c = ((of_char c :: nat) \<in> {9, 10, 11, 12, 13, 32})"

definition digitValue :: "char \<Rightarrow> nat option" where
  "digitValue c =
     (let n = (of_char c :: nat)
      in if 48 \<le> n \<and> n \<le> 57 then Some (n - 48)
         else if 97 \<le> n \<and> n \<le> 122 then Some (n - 87)
         else if 65 \<le> n \<and> n \<le> 90 then Some (n - 55)
         else None)"

definition isRadixDigit :: "nat \<Rightarrow> char \<Rightarrow> bool" where
  "isRadixDigit R c = (case digitValue c of Some d \<Rightarrow> d < R | None \<Rightarrow> False)"

definition digitsValue :: "nat \<Rightarrow> string \<Rightarrow> nat" where
  "digitsValue R Z =
     foldl (\<lambda>acc c. acc * R + (case digitValue c of Some d \<Rightarrow> d | None \<Rightarrow> 0)) 0 Z"

definition parseInt :: "string \<Rightarrow> int option" where
  "parseInt inputString =
     (let S = dropWhile isWhiteSpace inputString;
          sign = (case S of c # _ \<Rightarrow> if c = CHR ''-'' then - 1 else 1 | [] \<Rightarrow> (1::int));
          S = (case S of c # rest \<Rightarrow> if c = CHR ''+'' \<or> c = CHR ''-'' then rest else S
                       | [] \<Rightarrow> S);
          hex = (take 2 S = ''0x'' \<or> take 2 S = ''0X'');
          R = (if hex then 16 else 10);
          S = (if hex then drop 2 S else S);
          Z = takeWhile (isRadixDigit R) S
      in if Z = [] then None else Some (sign * int (digitsValue R Z)))"

text \<open>
  The lookup fetches only when no list is cached (it does not touch
  \<^verbatim>\<open>lastFetchTime\<close>); \<^verbatim>\<open>Array.prototype.find\<close> returns the first match, and
  \<^verbatim>\<open>===\<close> against \<^verbatim>\<open>NaN\<close> is false for every id.
\<close>

definition get_company_by_id :: "world \<Rightarrow> string \<Rightarrow> server \<Rightarrow> outcome" where
  "get_company_by_id w id_param s =
     (let (cached, calls) = (case cachedCompanies s of
                               None \<Rightarrow> (fetchCompanies w, 1)
                             | Some cs \<Rightarrow> (cs, 0));
          s' = s\<lparr>cachedCompanies := Some cached\<rparr>
      in case find (\<lambda>c. Some (id_num c) = parseInt id_param) cached of
           None \<Rightarrow>
             \<lparr>response = \<lparr>status = 404, body = FailureBody ''Company not found''\<rparr>,
              server_after = s', sec_calls = calls\<rparr>
         | Some company \<Rightarrow>
             \<lparr>response = \<lparr>status = 200, body = CompanyBody company\<rparr>,
              server_after = s', sec_calls = calls\<rparr>)"

text \<open>
  The list that the lookup searches, which is also the list cached after it: the cached
  one, or the freshly fetched one when nothing was cached. \<open>not_found\<close> is the 404
  answer of the route.
\<close>

definition lookup_list :: "world \<Rightarrow> server \<Rightarrow> company list" where
  "lookup_list w s = (case cachedCompanies s of None \<Rightarrow> fetchCompanies w | Some cs \<Rightarrow> cs)"

definition not_found :: response where
  "not_found = \<lparr>status = 404, body = FailureBody ''Company not found''\<rparr>"

subsection \<open>POST /api/companies/refresh (server.js lines 154 to 174)\<close>

definition refresh_companies :: "world \<Rightarrow> server \<Rightarrow> outcome" where
  "refresh_companies w s =
     (let companies = fetchCompanies w
      in \<lparr>response = \<lparr>status = 200,
                        body = RefreshBody ''Data refreshed successfully'' companies
                                 (int (length companies))\<rparr>,
          server_after = \<lparr>cachedCompanies = Some companies,
                          lastFetchTime = Some (time_after_fetch w)\<rparr>,
          sec_calls = 1\<rparr>)"

text \<open>
  Each handler wraps its body in \<^verbatim>\<open>try\<close> and answers 500 from the
  \<^verbatim>\<open>catch\<close> block. \<^verbatim>\<open>fetchFromSEC\<close> catches whatever its own body throws, and the
  rest of a handler body reads fields of values that exist, so no step modelled above
  throws.
\<close>

section \<open>Example data\<close>

text \<open>
  The two records and the view state of the specification's end-to-end example.
\<close>

definition acme :: company where
  "acme = \<lparr>id_num = 1, name = ''Acme'', location = ''NY'', industry = ''Tech'',
            employees = 100, founded = 2000, ticker = []\<rparr>"

definition zenith :: company where
  "zenith = \<lparr>id_num = 2, name = ''Zenith'', location = ''NY'', industry = ''Finance'',
              employees = 50, founded = 1990, ticker = []\<rparr>"

definition example_view :: view_state where
  "example_view =
     \<lparr>searchTerm = [], locationFilter = ''NY'', industryFilter = [],
      sortBy = Employees, sortOrder = Desc, currentPage = 1\<rparr>"

text \<open>
  Server states and request environments: a server that has not fetched yet; a request
  whose registry call runs into the 5 second timeout; a request whose registry call
  answers with two entries; and a server that cached the two example records some
  sixteen minutes before those requests.
\<close>

definition empty_server :: server where
  "empty_server = \<lparr>cachedCompanies = None, lastFetchTime = None\<rparr>"

definition timed_out_world :: world where
  "timed_out_world =
     \<lparr>sec_reply = Rejected, random = (\<lambda>n. 0),
      time_at_entry = 1700000000000, time_after_fetch = 1700000005000\<rparr>"

definition registry_world :: world where
  "registry_world =
     \<lparr>sec_reply = Resolved [\<lparr>title = ''Apple Inc.'', sec_ticker = ''AAPL''\<rparr>,
                            \<lparr>title = ''Microsoft Corp'', sec_ticker = ''MSFT''\<rparr>],
      random = (\<lambda>n. 1 / 2),
      time_at_entry = 1700000000000, time_after_fetch = 1700000000800\<rparr>"

definition warm_server :: server where
  "warm_server = \<lparr>cachedCompanies = Some [acme, zenith], lastFetchTime = Some 1699999000000\<rparr>"

text \<open>
  A view that shows page 2 of the technology companies in the default order, and a
  request whose registry call answers with 20 entries (they carry the names and tickers
  of the curated list).
\<close>

definition technology_page_2 :: view_state where
  "technology_page_2 =
     \<lparr>searchTerm = [], locationFilter = [], industryFilter = ''Technology'',
      sortBy = Name, sortOrder = Asc, currentPage = 2\<rparr>"

definition full_registry_world :: world where
  "full_registry_world =
     \<lparr>sec_reply =
        Resolved (map (\<lambda>c. \<lparr>title = name c, sec_ticker = ticker c\<rparr>) getRealCompanies),
      random = (\<lambda>n. 1 / 2),
      time_at_entry = 1700000600000, time_after_fetch = 1700000600800\<rparr>"

section \<open>Properties of the filter\<close>

lemma startsWith_iff_append: "startsWith s t \<longleftrightarrow> (\<exists>after. s = t @ after)"
  by (induction s t rule: startsWith.induct) auto

lemma includes_iff_substring: "includes_str s t \<longleftrightarrow> is_substring t s"
proof (induction s)
  case Nil
  show ?case by (auto simp: is_substring_def)
next
  case (Cons c s)
  show ?case
  proof
    assume "includes_str (c # s) t"
    then consider "startsWith (c # s) t" | "includes_str s t" by auto
    then show "is_substring t (c # s)"
    proof cases
      case 1
      then obtain after where "c # s = t @ after"
        using startsWith_iff_append by blast
      then have "c # s = [] @ t @ after" by simp
      then show ?thesis unfolding is_substring_def by blast
    next
      case 2
      then obtain before after where "s = before @ t @ after"
        using Cons.IH by (auto simp: is_substring_def)
      then have "c # s = (c # before) @ t @ after" by simp
      then show ?thesis unfolding is_substring_def by blast
    qed
  next
    assume "is_substring t (c # s)"
    then obtain before after where eq: "c # s = before @ t @ after"
      by (auto simp: is_substring_def)
    show "includes_str (c # s) t"
    proof (cases before)
      case Nil
      with eq have "startsWith (c # s) t"
        using startsWith_iff_append by auto
      then show ?thesis by simp
    next
      case (Cons b bs)
      with eq have "s = bs @ t @ after" by simp
      then have "is_substring t s" unfolding is_substring_def by blast
      with Cons.IH show ?thesis by simp
    qed
  qed
qed

lemma includes_empty: "includes_str s []"
  by (cases s) auto

lemma toLowerCase_empty_iff: "toLowerCase s = [] \<longleftrightarrow> s = []"
  by (simp add: toLowerCase_def)

lemma keep_iff_spec_keep:
  "(matchesSearch vs c \<and> matchesLocation vs c \<and> matchesIndustry vs c) \<longleftrightarrow> spec_keep vs c"
proof (cases "searchTerm vs = []")
  case True
  then show ?thesis
    by (auto simp: matchesSearch_def matchesLocation_def matchesIndustry_def spec_keep_def
        toLowerCase_def includes_empty)
next
  case False
  then show ?thesis
    by (auto simp: matchesSearch_def matchesLocation_def matchesIndustry_def spec_keep_def
        includes_iff_substring)
qed

text \<open>
  Claim C2. For every record list and every view state, the filter step keeps a record
  if and only if (a) the search term is empty or its case-folded form is a substring of
  the case-folded name or of the case-folded location, and (b) the location filter is
  empty or equals the record's location, and (c) the industry filter is empty or equals
  the record's industry. The kept records stay in their original order.
\<close>

theorem C2_filter_keeps_iff:
  "filtered companies vs = filter (spec_keep vs) companies \<and>
   (c \<in> set (filtered companies vs) \<longleftrightarrow> c \<in> set companies \<and> spec_keep vs c)"
  by (auto simp: filtered_def keep_iff_spec_keep)

section \<open>Properties of the sort\<close>



lemma mset_BinaryInsertionSort:
  "mset (BinaryInsertionSort cmp run rest) = mset run + mset rest"
proof (induction rest arbitrary: run)
  case Nil
  show ?case by simp
next
  case (Cons pivot rest)
  have "mset (take n run @ pivot # drop n run) = add_mset pivot (mset run)" for n
    by (metis append_take_drop_id mset.simps(2) mset_append union_mset_add_mset_right)
  with Cons.IH show ?case by (simp add: Let_def)
qed

lemma mset_CountAndMakeRun:
  "mset (fst (CountAndMakeRun cmp xs)) + mset (snd (CountAndMakeRun cmp xs)) = mset xs"
proof (cases "(cmp, xs)" rule: CountAndMakeRun.cases)
  case (1 c elementHigh elementLow rest)
  have "mset (take n ys) + mset (drop n ys) = mset ys" for n and ys :: "'a list"
    by (metis append_take_drop_id mset_append)
  with 1 show ?thesis by (simp add: Let_def del: take_Suc_Cons drop_Suc_Cons)
qed simp_all

lemma array_sort_unfold:
  assumes "\<not> length xs < 2" and "CountAndMakeRun cmp xs = (run, rest)"
  shows "array_sort cmp xs = BinaryInsertionSort cmp run rest"
  unfolding array_sort_def using assms by (simp only: if_False Let_def prod.case)

lemma mset_array_sort: "mset (array_sort cmp xs) = mset xs"
proof (cases "length xs < 2")
  case True
  then show ?thesis by (simp add: array_sort_def)
next
  case False
  obtain run rest where made: "CountAndMakeRun cmp xs = (run, rest)"
    by (cases "CountAndMakeRun cmp xs")
  have "mset (fst (run, rest)) + mset (snd (run, rest)) = mset xs"
    using mset_CountAndMakeRun [of cmp xs] by (simp only: made)
  then have "mset run + mset rest = mset xs"
    by (simp only: fst_conv snd_conv)
  then show ?thesis
    by (simp only: array_sort_unfold [OF False made] mset_BinaryInsertionSort)
qed





















lemma compare3_zero_iff:
  "compare3 x y = 0 \<longleftrightarrow> \<not> js_lt x y \<and> \<not> js_gt x y"
  by (simp add: compare3_def)


lemma mset_filteredCompanies: "mset (filteredCompanies companies vs) = mset (filtered companies vs)"
  by (simp add: filteredCompanies_def mset_array_sort)








text \<open>
  Records with equal keys: the callback answers -1 for them in either order, so the two
  example records, which share their location, form a descending run that the engine
  reverses. Sorted by location they come out as Zenith, Acme in both directions.
\<close>

lemma equal_keys_are_reversed:
  "map id_num (filteredCompanies [acme, zenith]
     (example_view\<lparr>sortBy := Location, sortOrder := Asc\<rparr>)) = [2, 1] \<and>
   map id_num (filteredCompanies [acme, zenith]
     (example_view\<lparr>sortBy := Location, sortOrder := Desc\<rparr>)) = [2, 1]"
  by code_simp


section \<open>Properties of the pagination\<close>

lemma totalPages_div: "totalPages fc = (int (length fc) + 5) div 6"
proof -
  have "totalPages fc = \<lceil>real_of_int (int (length fc)) / real_of_int 6\<rceil>"
    by (simp add: totalPages_def itemsPerPage_def)
  also have "\<dots> = - (- int (length fc) div 6)"
    by (rule ceiling_divide_eq_div)
  also have "\<dots> = (int (length fc) + 5) div 6"
    by presburger
  finally show ?thesis .
qed

lemma totalPages_nonneg: "0 \<le> totalPages fc"
  by (simp add: totalPages_div)

lemma totalPages_covers: "int (length fc) \<le> 6 * totalPages fc"
  unfolding totalPages_div by presburger

lemma totalPages_zero_iff: "totalPages fc = 0 \<longleftrightarrow> fc = []"
proof -
  have "(int (length fc) + 5) div 6 = 0 \<longleftrightarrow> length fc = 0"
    by presburger
  then show ?thesis by (simp add: totalPages_div)
qed

lemma slice_window:
  "slice xs (int a) (int a + int n) = take n (drop a xs)"
proof (cases "a \<le> length xs")
  case True
  have "min (int a + int n) (int (length xs)) - int a = int (min n (length xs - a))"
    using True by (auto simp: min_def)
  moreover have "take (min n (length xs - a)) (drop a xs) = take n (drop a xs)"
    by (cases "n \<le> length xs - a") (simp_all add: min_def)
  ultimately show ?thesis
    using True by (simp add: slice_def Let_def)
next
  case False
  then show ?thesis
    by (simp add: slice_def Let_def)
qed

lemma paginated_page:
  "paginatedCompanies fc (int m + 1) = take 6 (drop (6 * m) fc)"
proof -
  have "paginatedCompanies fc (int m + 1) = slice fc (int (6 * m)) (int (6 * m) + int 6)"
    by (simp add: paginatedCompanies_def itemsPerPage_def algebra_simps)
  then show ?thesis
    by (simp only: slice_window)
qed

lemma concat_pages_upto:
  "concat (map (paginatedCompanies fc) [1..int m]) = take (6 * m) fc"
proof (induction m)
  case 0
  show ?case by simp
next
  case (Suc m)
  have "[1..int (Suc m)] = [1..int m] @ [int m + 1]"
    using upto_rec2 [of 1 "int m + 1"] by (simp add: add.commute)
  then have "concat (map (paginatedCompanies fc) [1..int (Suc m)]) =
      take (6 * m) fc @ paginatedCompanies fc (int m + 1)"
    using Suc.IH by simp
  also have "\<dots> = take (6 * m) fc @ take 6 (drop (6 * m) fc)"
    by (simp add: paginated_page)
  also have "\<dots> = take (6 * m + 6) fc"
    by (simp add: take_add)
  finally show ?case by (simp add: algebra_simps)
qed

lemma concat_all_pages: "concat (map (paginatedCompanies fc) [1..totalPages fc]) = fc"
proof -
  obtain m where m: "totalPages fc = int m"
    using totalPages_nonneg nonneg_int_cases by blast
  have "length fc \<le> 6 * m"
    using totalPages_covers [of fc] m by linarith
  then show ?thesis
    by (simp add: m concat_pages_upto)
qed

text \<open>
  Claim C4. The page size is the constant 6; the number of pages is the ceiling of the
  number of filtered records divided by the page size, which is 0 exactly when no
  record is left; and the page slices for the pages 1 up to the number of pages, put
  together in order, give back the filtered and sorted list.
\<close>

theorem C4_total_pages_and_concatenation:
  "itemsPerPage = 6 \<and>
   totalPages (filteredCompanies companies vs) =
     \<lceil>real (length (filteredCompanies companies vs)) / real itemsPerPage\<rceil> \<and>
   totalPages (filteredCompanies companies vs) =
     (int (length (filteredCompanies companies vs)) + 5) div 6 \<and>
   (totalPages (filteredCompanies companies vs) = 0) =
     (filteredCompanies companies vs = []) \<and>
   concat (map (paginatedCompanies (filteredCompanies companies vs))
             [1..totalPages (filteredCompanies companies vs)]) =
     filteredCompanies companies vs"
  using totalPages_div [of "filteredCompanies companies vs"]
    totalPages_zero_iff [of "filteredCompanies companies vs"]
    concat_all_pages [of "filteredCompanies companies vs"]
  by (simp add: itemsPerPage_def totalPages_def)

section \<open>Properties of the page and of the event handlers\<close>

lemma paginated_in_range:
  assumes "1 \<le> page" and "page \<le> totalPages fc"
  shows "paginatedCompanies fc page = take 6 (drop (6 * nat (page - 1)) fc)"
    and "paginatedCompanies fc page \<noteq> []"
proof -
  obtain m where m: "page = int m + 1"
    using assms(1) by (metis add.commute diff_add_cancel diff_ge_0_iff_ge nonneg_int_cases)
  show eq: "paginatedCompanies fc page = take 6 (drop (6 * nat (page - 1)) fc)"
    by (simp add: m paginated_page)
  have "6 * (int m + 1) \<le> int (length fc) + 5"
    using assms(2) unfolding totalPages_div m by presburger
  then have "int (6 * m) < int (length fc)" by simp
  then have "6 * m < length fc" by (simp only: of_nat_less_iff)
  then show "paginatedCompanies fc page \<noteq> []"
    by (simp add: m paginated_page)
qed

lemma paginated_beyond_last:
  assumes "totalPages fc < page"
  shows "paginatedCompanies fc page = []"
proof -
  have "1 \<le> page"
    using assms totalPages_nonneg [of fc] by linarith
  then obtain m where m: "page = int m + 1"
    by (metis add.commute diff_add_cancel diff_ge_0_iff_ge nonneg_int_cases)
  have "int (length fc) \<le> 6 * int m"
    using assms totalPages_covers [of fc] m by linarith
  then have "int (length fc) \<le> int (6 * m)" by simp
  then have "length fc \<le> 6 * m" by (simp only: of_nat_le_iff)
  then show ?thesis
    by (simp add: m paginated_page)
qed

text \<open>
  The pagination buttons keep a page that is in range in range: Previous and Next cut
  the new page with \<^verbatim>\<open>Math.max\<close> and \<^verbatim>\<open>Math.min\<close>, and a numbered button
  exists for each index below the number of pages.
\<close>

lemma buttons_keep_page_in_range:
  assumes "1 \<le> currentPage vs" and "currentPage vs \<le> pages"
  shows "1 \<le> currentPage (previous_onClick vs) \<and> currentPage (previous_onClick vs) \<le> pages \<and>
         1 \<le> currentPage (next_onClick pages vs) \<and> currentPage (next_onClick pages vs) \<le> pages \<and>
         (int i < pages \<longrightarrow>
            1 \<le> currentPage (page_onClick i vs) \<and> currentPage (page_onClick i vs) \<le> pages)"
  using assms by (simp add: previous_onClick_def next_onClick_def page_onClick_def)

lemma map_slice: "map f (slice xs start end') = slice (map f xs) start end'"
  by (simp add: slice_def Let_def take_map drop_map)

lemma before_refresh:
  "map id_num (filteredCompanies getRealCompanies technology_page_2) = [6, 1, 17, 5, 2, 20, 13]"
  by code_simp

lemma after_refresh:
  "map id_num (filteredCompanies (fetchCompanies full_registry_world) technology_page_2) =
     [6, 1, 16, 11]"
  by code_simp

text \<open>
  Claim C3 at a refresh. The curated list is loaded and the view shows page 2 of 2 of
  its seven technology companies (the one record with id 13). A refresh then loads 20
  records mapped from the registry, four of them technology companies, so there is one
  page. \<^verbatim>\<open>setCompanies\<close> leaves the page at 2; the clamp of the claim would give page
  1 with the four records, but the slice is taken at page 2 and the visible page is
  empty.
\<close>

theorem C3_refresh_leaves_page_beyond_last:
  "currentPage technology_page_2 = 2 \<and>
   totalPages (filteredCompanies getRealCompanies technology_page_2) = 2 \<and>
   map id_num (visible_page (getRealCompanies, technology_page_2)) = [13] \<and>
   setCompanies (fetchCompanies full_registry_world) (getRealCompanies, technology_page_2) =
     (fetchCompanies full_registry_world, technology_page_2) \<and>
   map id_num (filteredCompanies (fetchCompanies full_registry_world) technology_page_2) =
     [6, 1, 16, 11] \<and>
   totalPages (filteredCompanies (fetchCompanies full_registry_world) technology_page_2) = 1 \<and>
   clampPage (totalPages (filteredCompanies (fetchCompanies full_registry_world) technology_page_2))
     (currentPage technology_page_2) = 1 \<and>
   map id_num (paginatedCompanies
     (filteredCompanies (fetchCompanies full_registry_world) technology_page_2) 1) =
     [6, 1, 16, 11] \<and>
   visible_page
     (setCompanies (fetchCompanies full_registry_world) (getRealCompanies, technology_page_2)) = []"
proof -
  have page: "currentPage technology_page_2 = 2"
    by (simp add: technology_page_2_def)
  have "length (map id_num (filteredCompanies getRealCompanies technology_page_2)) = 7"
    by (simp only: before_refresh) simp
  then have pages_before: "totalPages (filteredCompanies getRealCompanies technology_page_2) = 2"
    by (simp add: totalPages_div)
  have "map id_num (visible_page (getRealCompanies, technology_page_2)) =
      slice (map id_num (filteredCompanies getRealCompanies technology_page_2)) 6 12"
    by (simp add: visible_page_def paginatedCompanies_def itemsPerPage_def map_slice page)
  then have seen_before: "map id_num (visible_page (getRealCompanies, technology_page_2)) = [13]"
    by (simp only: before_refresh) (simp add: slice_def)
  have loaded: "setCompanies (fetchCompanies full_registry_world)
      (getRealCompanies, technology_page_2) =
        (fetchCompanies full_registry_world, technology_page_2)"
    by (simp add: setCompanies_def)
  have "length (map id_num
      (filteredCompanies (fetchCompanies full_registry_world) technology_page_2)) = 4"
    by (simp only: after_refresh) simp
  then have pages_after:
    "totalPages (filteredCompanies (fetchCompanies full_registry_world) technology_page_2) = 1"
    by (simp add: totalPages_div)
  have clamped: "clampPage
      (totalPages (filteredCompanies (fetchCompanies full_registry_world) technology_page_2))
      (currentPage technology_page_2) = 1"
    by (simp add: pages_after page clampPage_def)
  have "map id_num (paginatedCompanies
      (filteredCompanies (fetchCompanies full_registry_world) technology_page_2) 1) =
      slice (map id_num
        (filteredCompanies (fetchCompanies full_registry_world) technology_page_2)) 0 6"
    by (simp add: paginatedCompanies_def itemsPerPage_def map_slice)
  then have first_page: "map id_num (paginatedCompanies
      (filteredCompanies (fetchCompanies full_registry_world) technology_page_2) 1) =
      [6, 1, 16, 11]"
    by (simp only: after_refresh) (simp add: slice_def)
  have "map id_num (visible_page (setCompanies (fetchCompanies full_registry_world)
      (getRealCompanies, technology_page_2))) =
      slice (map id_num
        (filteredCompanies (fetchCompanies full_registry_world) technology_page_2)) 6 12"
    by (simp add: loaded visible_page_def paginatedCompanies_def itemsPerPage_def map_slice page)
  then have "map id_num (visible_page (setCompanies (fetchCompanies full_registry_world)
      (getRealCompanies, technology_page_2))) = []"
    by (simp only: after_refresh) (simp add: slice_def)
  then have blank: "visible_page (setCompanies (fetchCompanies full_registry_world)
      (getRealCompanies, technology_page_2)) = []"
    by simp
  from page pages_before seen_before loaded after_refresh pages_after clamped first_page blank
  show ?thesis by blast
qed

text \<open>
  What the handlers do to the page. A change of the search term, of the location filter
  or of the industry filter stores the new value and sets the page to 1, and so does the
  reset of all filters. \<^verbatim>\<open>handleSort\<close> leaves the page as it is; the number of pages is
  the same before and after it.
\<close>

lemma page_after_handlers:
  "searchTerm_onChange v vs = vs\<lparr>searchTerm := v, currentPage := 1\<rparr> \<and>
   locationFilter_onChange v vs = vs\<lparr>locationFilter := v, currentPage := 1\<rparr> \<and>
   industryFilter_onChange v vs = vs\<lparr>industryFilter := v, currentPage := 1\<rparr> \<and>
   currentPage (searchTerm_onChange v vs) = 1 \<and>
   currentPage (locationFilter_onChange v vs) = 1 \<and>
   currentPage (industryFilter_onChange v vs) = 1 \<and>
   currentPage (resetFilters vs) = 1 \<and>
   currentPage (handleSort fld vs) = currentPage vs \<and>
   totalPages (filteredCompanies companies (handleSort fld vs)) =
     totalPages (filteredCompanies companies vs)"
proof -
  have "filtered companies (handleSort fld vs) = filtered companies vs"
    by (simp add: filtered_def matchesSearch_def matchesLocation_def matchesIndustry_def
        handleSort_def)
  then have "mset (filteredCompanies companies (handleSort fld vs)) =
      mset (filteredCompanies companies vs)"
    by (simp add: mset_filteredCompanies)
  then have "length (filteredCompanies companies (handleSort fld vs)) =
      length (filteredCompanies companies vs)"
    by (rule mset_eq_length)
  then show ?thesis
    by (simp add: searchTerm_onChange_def locationFilter_onChange_def
        industryFilter_onChange_def resetFilters_def handleSort_def totalPages_def)
qed

text \<open>
  Claim C5 at page 2 of a view sorted by employees, descending: a click on the employees
  header flips the direction, a click on the founded header changes the sort key, and
  after either the page is still 2, not 1.
\<close>

theorem C5_sort_keeps_page:
  "sortOrder (handleSort Employees (example_view\<lparr>currentPage := 2\<rparr>)) = Asc \<and>
   sortOrder (example_view\<lparr>currentPage := 2\<rparr>) = Desc \<and>
   currentPage (handleSort Employees (example_view\<lparr>currentPage := 2\<rparr>)) = 2 \<and>
   sortBy (handleSort Founded (example_view\<lparr>currentPage := 2\<rparr>)) = Founded \<and>
   sortBy (example_view\<lparr>currentPage := 2\<rparr>) = Employees \<and>
   currentPage (handleSort Founded (example_view\<lparr>currentPage := 2\<rparr>)) = 2"
  by (simp add: handleSort_def example_view_def)

section \<open>Properties of the fetch\<close>

lemma length_getRealCompanies: "length getRealCompanies = 20"
  by (simp add: getRealCompanies_def)

lemma ids_getRealCompanies: "map id_num getRealCompanies = map int [1..<21]"
  by (simp add: getRealCompanies_def upt_rec)

lemma distinct_ids_getRealCompanies: "distinct (map id_num getRealCompanies)"
proof -
  have "distinct (map int [1..<21])"
    by (simp add: distinct_map)
  then show ?thesis by (simp only: ids_getRealCompanies)
qed

lemma employees_getRealCompanies: "\<forall>c\<in>set getRealCompanies. 0 \<le> employees c"
  by (simp add: getRealCompanies_def)

lemma names_getRealCompanies: "\<forall>c\<in>set getRealCompanies. name c \<noteq> []"
  by (simp add: getRealCompanies_def)

lemma fetchCompanies_rejected: "sec_reply w = Rejected \<Longrightarrow> fetchCompanies w = getRealCompanies"
  by (simp add: fetchCompanies_def fetchFromSEC_def)

lemma ids_of_sec_companies:
  "map id_num (map (\<lambda>(index, entry). sec_company rnd index entry) (enumerate n xs)) =
     map (\<lambda>i. int i + 1) [n..<n + length xs]"
proof -
  have "map id_num (map (\<lambda>(index, entry). sec_company rnd index entry) (enumerate n xs)) =
      map ((\<lambda>i. int i + 1) \<circ> fst) (enumerate n xs)"
    by (simp add: sec_company_def case_prod_unfold o_def)
  also have "\<dots> = map (\<lambda>i. int i + 1) (map fst (enumerate n xs))"
    by (simp only: map_map)
  also have "\<dots> = map (\<lambda>i. int i + 1) [n..<n + length xs]"
    by (simp only: map_fst_enumerate)
  finally show ?thesis .
qed

lemma distinct_ids_of_sec_companies:
  "distinct (map id_num (map (\<lambda>(index, entry). sec_company rnd index entry) (enumerate n xs)))"
proof -
  have "inj_on (\<lambda>i. int i + 1) (set [n..<n + length xs])"
    by (simp add: inj_on_def)
  then have "distinct (map (\<lambda>i. int i + 1) [n..<n + length xs])"
    by (simp add: distinct_map)
  then show ?thesis by (simp only: ids_of_sec_companies)
qed

lemma employees_of_sec_company: "0 \<le> r \<Longrightarrow> 100 \<le> \<lfloor>r * 5000\<rfloor> + (100::int)"
  for r :: real
  by simp

lemma employees_of_sec_companies:
  assumes "\<forall>n. 0 \<le> rnd n"
  shows "\<forall>c\<in>set (map (\<lambda>(index, entry). sec_company rnd index entry) (enumerate n xs)).
           0 \<le> employees c"
proof
  fix c
  assume "c \<in> set (map (\<lambda>(index, entry). sec_company rnd index entry) (enumerate n xs))"
  then obtain index entry where c: "c = sec_company rnd index entry" by auto
  have "0 \<le> rnd (2 * index)" using assms by simp
  then have "100 \<le> employees c"
    unfolding c sec_company_def by simp
  then show "0 \<le> employees c" by linarith
qed

text \<open>
  Claim C9. Whatever the registry call yields, and for random draws in the range of
  \<^verbatim>\<open>Math.random()\<close> (from 0 inclusive to 1 exclusive), the list that
  \<^verbatim>\<open>fetchCompanies\<close> produces, mapped from the registry or taken from the curated
  list, has pairwise distinct ids, and the employees of every record are not negative.
\<close>

theorem C9_ids_unique_employees_nonnegative:
  assumes "\<forall>n. 0 \<le> random w n \<and> random w n < 1"
  shows "distinct (map id_num (fetchCompanies w)) \<and>
         (\<forall>c\<in>set (fetchCompanies w). 0 \<le> employees c)"
proof (cases "sec_reply w")
  case Rejected
  then show ?thesis
    using distinct_ids_getRealCompanies employees_getRealCompanies
    by (simp add: fetchCompanies_rejected)
next
  case (Resolved vals)
  from assms have draws: "\<forall>n. 0 \<le> random w n" by simp
  show ?thesis
  proof (cases "take 20 vals = []")
    case True
    with Resolved have "fetchCompanies w = getRealCompanies"
      by (simp add: fetchCompanies_def fetchFromSEC_def)
    then show ?thesis
      using distinct_ids_getRealCompanies employees_getRealCompanies by simp
  next
    case False
    with Resolved have "fetchCompanies w =
        map (\<lambda>(index, entry). sec_company (random w) index entry) (enumerate 0 (take 20 vals))"
      by (simp add: fetchCompanies_def fetchFromSEC_def)
    then show ?thesis
      using distinct_ids_of_sec_companies [of "random w" 0 "take 20 vals"]
        employees_of_sec_companies [OF draws, of 0 "take 20 vals"]
      by simp
  qed
qed

lemma fetch_registry_world:
  "fetchCompanies registry_world =
     [\<lparr>id_num = 1, name = ''Apple Inc.'', location = ''United States'', industry = ''Technology'',
       employees = 2600, founded = 1985, ticker = ''AAPL''\<rparr>,
      \<lparr>id_num = 2, name = ''Microsoft Corp'', location = ''United States'', industry = ''Finance'',
       employees = 2600, founded = 1985, ticker = ''MSFT''\<rparr>]"
  by (simp add: fetchCompanies_def fetchFromSEC_def registry_world_def sec_company_def
      industry_labels_def enumerate_eq_zip upt_rec)

text \<open>
  Claim C9 at a registry answer of two entries with every random draw equal to one half.
\<close>

theorem C9_ids_unique_employees_nonnegative_witness:
  "(\<forall>n. 0 \<le> random registry_world n \<and> random registry_world n < 1) \<and>
   map id_num (fetchCompanies registry_world) = [1, 2] \<and>
   map employees (fetchCompanies registry_world) = [2600, 2600] \<and>
   distinct (map id_num (fetchCompanies registry_world)) \<and>
   0 \<le> employees (fetchCompanies registry_world ! 0) \<and>
   0 \<le> employees (fetchCompanies registry_world ! 1)"
proof -
  have draws: "\<forall>n. 0 \<le> random registry_world n \<and> random registry_world n < 1"
    by (simp add: registry_world_def)
  note inst = C9_ids_unique_employees_nonnegative [OF draws]
  have members: "fetchCompanies registry_world ! 0 \<in> set (fetchCompanies registry_world)"
    "fetchCompanies registry_world ! 1 \<in> set (fetchCompanies registry_world)"
    by (simp_all add: fetch_registry_world)
  from inst members have "0 \<le> employees (fetchCompanies registry_world ! 0)"
    and "0 \<le> employees (fetchCompanies registry_world ! 1)"
    by blast+
  moreover have "map id_num (fetchCompanies registry_world) = [1, 2]"
    and "map employees (fetchCompanies registry_world) = [2600, 2600]"
    by (simp_all add: fetch_registry_world)
  ultimately show ?thesis
    using draws inst by blast
qed

section \<open>Properties of the routes\<close>

text \<open>
  Claim C6. The freshness window is one hour. When \<^verbatim>\<open>GET /api/companies\<close> finds a
  cached list and a stored fetch time (a clock reading, so not 0) and less than the
  window has passed since that time, it answers with the cached records and the source
  tag \<^verbatim>\<open>'cache'\<close>, makes no call to the registry, and leaves the cached list and the
  stored fetch time as they were.
\<close>

theorem C6_fresh_cache_is_served:
  assumes "cachedCompanies s = Some cached"
    and "lastFetchTime s = Some t"
    and "t \<noteq> 0"
    and "time_at_entry w - t < CACHE_DURATION"
  shows "CACHE_DURATION = 60 * 60 * 1000 \<and>
         response (get_companies w s) =
           \<lparr>status = 200, body = ListBody cached (int (length cached)) ''cache'' None\<rparr> \<and>
         sec_calls (get_companies w s) = 0 \<and>
         server_after (get_companies w s) = s"
  using assms by (simp add: get_companies_def timestamp_is_fresh_def CACHE_DURATION_def Let_def)

text \<open>
  Claim C6 at a server that cached the two example records 1000 seconds before the
  request.
\<close>

theorem C6_fresh_cache_is_served_witness:
  "cachedCompanies warm_server = Some [acme, zenith] \<and>
   lastFetchTime warm_server = Some 1699999000000 \<and>
   (1699999000000::int) \<noteq> 0 \<and>
   time_at_entry registry_world - 1699999000000 < CACHE_DURATION \<and>
   response (get_companies registry_world warm_server) =
     \<lparr>status = 200, body = ListBody [acme, zenith] 2 ''cache'' None\<rparr> \<and>
   sec_calls (get_companies registry_world warm_server) = 0 \<and>
   server_after (get_companies registry_world warm_server) = warm_server"
proof -
  have cached: "cachedCompanies warm_server = Some [acme, zenith]"
    and stamp: "lastFetchTime warm_server = Some 1699999000000"
    by (simp_all add: warm_server_def)
  have nonzero: "(1699999000000::int) \<noteq> 0" by simp
  have young: "time_at_entry registry_world - 1699999000000 < CACHE_DURATION"
    by (simp add: registry_world_def CACHE_DURATION_def)
  from C6_fresh_cache_is_served [OF cached stamp nonzero young] cached stamp nonzero young
  show ?thesis by simp
qed

lemma get_companies_stale:
  assumes "cachedCompanies s = None \<or> \<not> timestamp_is_fresh (lastFetchTime s) (time_at_entry w)"
  shows "get_companies w s = fetch_fresh w (time_at_entry w)"
  using assms by (auto simp: get_companies_def Let_def split: option.splits)

text \<open>
  Claim C7, as amended. If the registry call fails or times out, the fetch yields
  exactly the curated list of 20 named records; a refresh through
  \<^verbatim>\<open>POST /api/companies/refresh\<close>, and a \<^verbatim>\<open>GET /api/companies\<close> that finds
  no fresh cache, both answer 200 with that list and the count 20 and put the list into
  the cache, so no exception escapes. The response of the GET route carries the source
  tag \<^verbatim>\<open>'api'\<close>, that of the POST route carries none, and the server state has no
  tag: nothing is tagged as fallback.
\<close>

theorem C7_fallback_on_failure:
  assumes "sec_reply w = Rejected"
  shows "fetchCompanies w = getRealCompanies \<and>
         length getRealCompanies = 20 \<and>
         (\<forall>c\<in>set getRealCompanies. name c \<noteq> []) \<and>
         refresh_companies w s =
           \<lparr>response = \<lparr>status = 200,
                         body = RefreshBody ''Data refreshed successfully'' getRealCompanies 20\<rparr>,
            server_after = \<lparr>cachedCompanies = Some getRealCompanies,
                            lastFetchTime = Some (time_after_fetch w)\<rparr>,
            sec_calls = 1\<rparr> \<and>
         (cachedCompanies s = None \<or>
            \<not> timestamp_is_fresh (lastFetchTime s) (time_at_entry w) \<longrightarrow>
          get_companies w s =
            \<lparr>response = \<lparr>status = 200,
                          body = ListBody getRealCompanies 20 ''api'' (Some (time_after_fetch w))\<rparr>,
             server_after = \<lparr>cachedCompanies = Some getRealCompanies,
                             lastFetchTime = Some (time_at_entry w)\<rparr>,
             sec_calls = 1\<rparr>)"
proof (intro conjI impI)
  show fallback: "fetchCompanies w = getRealCompanies"
    using assms by (rule fetchCompanies_rejected)
  show "length getRealCompanies = 20"
    by (rule length_getRealCompanies)
  show "\<forall>c\<in>set getRealCompanies. name c \<noteq> []"
    by (rule names_getRealCompanies)
  show "refresh_companies w s =
           \<lparr>response = \<lparr>status = 200,
                         body = RefreshBody ''Data refreshed successfully'' getRealCompanies 20\<rparr>,
            server_after = \<lparr>cachedCompanies = Some getRealCompanies,
                            lastFetchTime = Some (time_after_fetch w)\<rparr>,
            sec_calls = 1\<rparr>"
    by (simp add: refresh_companies_def fallback length_getRealCompanies Let_def)
  assume "cachedCompanies s = None \<or> \<not> timestamp_is_fresh (lastFetchTime s) (time_at_entry w)"
  then have "get_companies w s = fetch_fresh w (time_at_entry w)"
    by (rule get_companies_stale)
  then show "get_companies w s =
            \<lparr>response = \<lparr>status = 200,
                          body = ListBody getRealCompanies 20 ''api'' (Some (time_after_fetch w))\<rparr>,
             server_after = \<lparr>cachedCompanies = Some getRealCompanies,
                             lastFetchTime = Some (time_at_entry w)\<rparr>,
             sec_calls = 1\<rparr>"
    by (simp add: fetch_fresh_def fallback length_getRealCompanies Let_def)
qed

text \<open>
  The amended claim C7 at a request whose registry call times out, on a server that has
  not fetched before.
\<close>

theorem C7_fallback_on_failure_witness:
  "sec_reply timed_out_world = Rejected \<and>
   cachedCompanies empty_server = None \<and>
   fetchCompanies timed_out_world = getRealCompanies \<and>
   name (getRealCompanies ! 0) \<noteq> [] \<and>
   cachedCompanies (server_after (get_companies timed_out_world empty_server)) =
     Some getRealCompanies \<and>
   status (response (get_companies timed_out_world empty_server)) = 200 \<and>
   status (response (refresh_companies timed_out_world empty_server)) = 200"
proof -
  have failed: "sec_reply timed_out_world = Rejected"
    by (simp add: timed_out_world_def)
  have cold: "cachedCompanies empty_server = None"
    by (simp add: empty_server_def)
  note inst = C7_fallback_on_failure [OF failed, of empty_server]
  have first: "getRealCompanies ! 0 \<in> set getRealCompanies"
    by (simp add: length_getRealCompanies)
  from inst first have named: "name (getRealCompanies ! 0) \<noteq> []" by blast
  from inst cold have "get_companies timed_out_world empty_server =
            \<lparr>response = \<lparr>status = 200,
                          body = ListBody getRealCompanies 20 ''api''
                                   (Some (time_after_fetch timed_out_world))\<rparr>,
             server_after = \<lparr>cachedCompanies = Some getRealCompanies,
                             lastFetchTime = Some (time_at_entry timed_out_world)\<rparr>,
             sec_calls = 1\<rparr>"
    by blast
  then have got: "cachedCompanies (server_after (get_companies timed_out_world empty_server)) =
      Some getRealCompanies"
    "status (response (get_companies timed_out_world empty_server)) = 200"
    by simp_all
  from inst have "refresh_companies timed_out_world empty_server =
           \<lparr>response = \<lparr>status = 200,
                         body = RefreshBody ''Data refreshed successfully'' getRealCompanies 20\<rparr>,
            server_after = \<lparr>cachedCompanies = Some getRealCompanies,
                            lastFetchTime = Some (time_after_fetch timed_out_world)\<rparr>,
            sec_calls = 1\<rparr>"
    by blast
  then have refreshed: "status (response (refresh_companies timed_out_world empty_server)) = 200"
    by simp
  from inst have "fetchCompanies timed_out_world = getRealCompanies" by blast
  with failed cold named got refreshed show ?thesis by blast
qed

text \<open>
  Claim C7 as stated fails: after a registry call that timed out, the GET response is
  tagged \<^verbatim>\<open>'api'\<close> and the POST response has no source tag; neither is
  \<^verbatim>\<open>'fallback'\<close>.
\<close>

theorem C7_no_fallback_tag_counterexample:
  "sec_reply timed_out_world = Rejected \<and>
   source_tag (body (response (get_companies timed_out_world empty_server))) = Some ''api'' \<and>
   source_tag (body (response (refresh_companies timed_out_world empty_server))) = None \<and>
   ''api'' \<noteq> ''fallback''"
  by (simp add: timed_out_world_def empty_server_def get_companies_def fetch_fresh_def
      refresh_companies_def Let_def)

text \<open>
  Claim C8 at a request that starts at time 1700000000000 and whose fetch completes 5
  seconds later, on a server that has not fetched before. Both routes replace the
  cached list. \<^verbatim>\<open>POST /api/companies/refresh\<close> stores the time at which the fetch
  completed; \<^verbatim>\<open>GET /api/companies\<close> stores the time at which the request began.
\<close>

theorem C8_get_stamps_request_start:
  "time_at_entry timed_out_world = 1700000000000 \<and>
   time_after_fetch timed_out_world = 1700000005000 \<and>
   cachedCompanies (server_after (get_companies timed_out_world empty_server)) =
     Some getRealCompanies \<and>
   lastFetchTime (server_after (get_companies timed_out_world empty_server)) =
     Some 1700000000000 \<and>
   cachedCompanies (server_after (refresh_companies timed_out_world empty_server)) =
     Some getRealCompanies \<and>
   lastFetchTime (server_after (refresh_companies timed_out_world empty_server)) =
     Some 1700000005000"
proof -
  have "fetchCompanies timed_out_world = getRealCompanies"
    by (rule fetchCompanies_rejected) (simp add: timed_out_world_def)
  then show ?thesis
    by (simp add: get_companies_def fetch_fresh_def refresh_companies_def empty_server_def
        timed_out_world_def Let_def)
qed

lemma lookup_finds_nothing:
  assumes "\<forall>c\<in>set (lookup_list w s). parseInt id_param \<noteq> Some (id_num c)"
  shows "response (get_company_by_id w id_param s) = not_found"
proof -
  have "find (\<lambda>c. Some (id_num c) = parseInt id_param) (lookup_list w s) = None"
    using assms by (auto simp: find_None_iff)
  then show ?thesis
    by (cases "cachedCompanies s")
      (simp_all add: get_company_by_id_def lookup_list_def not_found_def Let_def)
qed

text \<open>
  Claim C10. After \<^verbatim>\<open>GET /api/companies/:id\<close> the cache holds the list that the
  lookup searched (the one cached before, or the one the lookup fetched). Whenever the
  parsed id parameter equals the id of no record of that list, and in particular
  whenever the parameter has no leading number and parses to \<^verbatim>\<open>NaN\<close>, the answer is
  the 404 response with the message \<^verbatim>\<open>Company not found\<close>.
\<close>

theorem C10_unknown_id_is_not_found:
  "cachedCompanies (server_after (get_company_by_id w id_param s)) = Some (lookup_list w s) \<and>
   ((\<forall>c\<in>set (lookup_list w s). parseInt id_param \<noteq> Some (id_num c)) \<longrightarrow>
      response (get_company_by_id w id_param s) = not_found) \<and>
   (parseInt id_param = None \<longrightarrow> response (get_company_by_id w id_param s) = not_found)"
proof (intro conjI impI)
  show "cachedCompanies (server_after (get_company_by_id w id_param s)) = Some (lookup_list w s)"
    by (cases "cachedCompanies s")
      (simp_all add: get_company_by_id_def lookup_list_def Let_def split: option.splits)
next
  assume "\<forall>c\<in>set (lookup_list w s). parseInt id_param \<noteq> Some (id_num c)"
  then show "response (get_company_by_id w id_param s) = not_found"
    by (rule lookup_finds_nothing)
next
  assume "parseInt id_param = None"
  then have "\<forall>c\<in>set (lookup_list w s). parseInt id_param \<noteq> Some (id_num c)"
    by simp
  then show "response (get_company_by_id w id_param s) = not_found"
    by (rule lookup_finds_nothing)
qed

lemma parseInt_examples: "parseInt ''999'' = Some 999" "parseInt ''abc'' = None"
  by (simp_all add: parseInt_def isWhiteSpace_def isRadixDigit_def digitValue_def digitsValue_def)

text \<open>
  Claim C10 at a cache of the two example records (ids 1 and 2), for the parameters
  \<^verbatim>\<open>999\<close> and \<^verbatim>\<open>abc\<close>.
\<close>

theorem C10_unknown_id_is_not_found_witness:
  "lookup_list timed_out_world warm_server = [acme, zenith] \<and>
   parseInt ''999'' = Some 999 \<and> id_num acme = 1 \<and> id_num zenith = 2 \<and>
   response (get_company_by_id timed_out_world ''999'' warm_server) = not_found \<and>
   parseInt ''abc'' = None \<and>
   response (get_company_by_id timed_out_world ''abc'' warm_server) = not_found \<and>
   status not_found = 404"
proof -
  have snapshot: "lookup_list timed_out_world warm_server = [acme, zenith]"
    by (simp add: lookup_list_def warm_server_def)
  have ids: "id_num acme = 1" "id_num zenith = 2"
    by (simp_all add: acme_def zenith_def)
  have unknown: "\<forall>c\<in>set (lookup_list timed_out_world warm_server).
      parseInt ''999'' \<noteq> Some (id_num c)"
    by (simp add: snapshot parseInt_examples ids)
  from C10_unknown_id_is_not_found [of timed_out_world "''999''" warm_server] unknown
  have a: "response (get_company_by_id timed_out_world ''999'' warm_server) = not_found"
    by blast
  from C10_unknown_id_is_not_found [of timed_out_world "''abc''" warm_server] parseInt_examples(2)
  have b: "response (get_company_by_id timed_out_world ''abc'' warm_server) = not_found"
    by blast
  have "status not_found = 404" by (simp add: not_found_def)
  with snapshot ids a b parseInt_examples show ?thesis by blast
qed

end
